theory Spec2Isabelle
  imports Main "HOL-Library.Word"
begin

unbundle bit_operations_syntax

section \<open>The lights module of the titan device tree (liblight/lights.c)\<close>

text \<open>
  The module drives two sysfs files: the LCD backlight brightness and the control file
  of the indicator LED. A request is a \<open>light_state_t\<close>; the attention request is kept
  in the global \<open>g_attention\<close> and masks notification requests while it is lit.

  C \<open>unsigned int\<close> and \<open>int\<close> are 32-bit words; an \<open>int\<close> is read with \<open>sint\<close> where
  its sign matters (\<open>%d\<close>), and with \<open>unat\<close> where the C code prints it unsigned (\<open>%x\<close>).
\<close>

subsection \<open>Platform declarations used by the module\<close>

text \<open>
  Modelled from the spec: \<open>struct light_state_t\<close> of \<open>hardware/lights.h\<close>, which is
  not part of the repository. The spec's LightRequest has the fields \<open>color\<close> (32-bit
  ARGB, \<open>unsigned int\<close>), \<open>flashMode\<close>, \<open>flashOnMS\<close> and \<open>flashOffMS\<close> (\<open>int\<close>); the module
  reads no other field.
\<close>

record light_state_t =
  color :: "32 word"
  flashMode :: "32 word"
  flashOnMS :: "32 word"
  flashOffMS :: "32 word"

text \<open>
  Modelled from the spec: the flash modes NONE, TIMED and HARDWARE of
  \<open>hardware/lights.h\<close>. The spec names the three modes only; the numbers are the ones
  of the platform header. The theorems below refer to the modes by name.
\<close>

definition LIGHT_FLASH_NONE :: "32 word" where
  "LIGHT_FLASH_NONE = 0"

definition LIGHT_FLASH_TIMED :: "32 word" where
  "LIGHT_FLASH_TIMED = 1"

definition LIGHT_FLASH_HARDWARE :: "32 word" where
  "LIGHT_FLASH_HARDWARE = 2"

text \<open>
  Modelled from the spec: the light identifiers of \<open>hardware/lights.h\<close>, which the
  spec lists as "backlight", "notifications" and "attention".
\<close>

definition LIGHT_ID_BACKLIGHT :: string where
  "LIGHT_ID_BACKLIGHT = ''backlight''"

definition LIGHT_ID_NOTIFICATIONS :: string where
  "LIGHT_ID_NOTIFICATIONS = ''notifications''"

definition LIGHT_ID_ATTENTION :: string where
  "LIGHT_ID_ATTENTION = ''attention''"

text \<open>
  Modelled from the spec: the "invalid argument" error number \<open>EINVAL\<close> of \<open>errno.h\<close>
  and the device tag \<open>HARDWARE_DEVICE_TAG\<close> of \<open>hardware/hardware.h\<close> (the four
  characters H, W, D, T packed into a word), with their values on the platform.
\<close>

definition EINVAL :: int where
  "EINVAL = 22"

definition HARDWARE_DEVICE_TAG :: "32 word" where
  "HARDWARE_DEVICE_TAG = 0x48574454"

subsection \<open>Constants of lights.c\<close>

definition LED_LIGHT_OFF :: "32 word" where
  "LED_LIGHT_OFF = 0"

definition LED_LIGHT_ON :: "32 word" where
  "LED_LIGHT_ON = 255"

definition LCD_FILE :: string where
  "LCD_FILE = ''/sys/class/leds/lcd-backlight/brightness''"

definition RGB_CONTROL_FILE :: string where
  "RGB_CONTROL_FILE = ''/sys/class/leds/rgb/control''"

subsection \<open>The conversions of sprintf that the module uses\<close>

definition newline :: char where
  "newline = CHR 0x0A"

definition digit_char :: "nat \<Rightarrow> char" where
  "digit_char d = ''0123456789abcdef'' ! d"

fun dec_digits :: "nat \<Rightarrow> string" where
  "dec_digits n =
     (if n < 10 then [digit_char n] else dec_digits (n div 10) @ [digit_char (n mod 10)])"

fun hex_digits :: "nat \<Rightarrow> string" where
  "hex_digits n =
     (if n < 16 then [digit_char n] else hex_digits (n div 16) @ [digit_char (n mod 16)])"

declare dec_digits.simps [simp del]
declare hex_digits.simps [simp del]

text \<open>\<open>%d\<close> of an \<open>int\<close>: a minus sign for a negative value, no padding.\<close>

definition printf_d :: "32 word \<Rightarrow> string" where
  "printf_d v = (if sint v < 0 then CHR ''-'' # dec_digits (nat (- sint v))
                 else dec_digits (nat (sint v)))"

text \<open>\<open>%x\<close> of an \<open>int\<close>: the value read unsigned, lower case digits, no padding.\<close>

definition printf_x :: "32 word \<Rightarrow> string" where
  "printf_x v = hex_digits (unat v)"

subsection \<open>The state of the process and of the files it writes\<close>

text \<open>
  A device handle as \<open>open_lights\<close> fills it in: the \<open>common\<close> part of
  \<open>struct light_device_t\<close> and the function pointer \<open>set_light\<close>. Function pointers are
  the names of the functions they point to.
\<close>

datatype fn_ptr =
  Null_fn | Close_lights | Set_light_backlight | Set_light_notifications | Set_light_attention

record light_device_t =
  tag :: "32 word"
  version :: "32 word"
  module :: nat
  close :: fn_ptr
  set_light :: fn_ptr

text \<open>
  The world the module acts on: its globals (\<open>g_init\<close>, \<open>g_attention\<close>, the two static
  \<open>already_warned\<close> flags), the error log, the allocated device handles (address 0 is
  \<open>NULL\<close>; \<open>brk\<close> is the last address handed out) and, for the sysfs files, the sequence
  of (path, bytes) that \<open>write\<close> has accepted, the latest last.

  The calls run one after the other here: \<open>g_lock\<close> is taken at the start of each
  operation and released at its end, which a sequential run does not observe.
\<close>

record world =
  g_init :: bool
  g_attention :: light_state_t
  write_int_warned :: bool
  write_str_warned :: bool
  alog :: "string list"
  sysfs :: "(string \<times> string) list"
  heap :: "(nat \<times> light_device_t) list"
  brk :: nat

text \<open>
  What the kernel answers to the \<open>open\<close> and \<open>write\<close> of one operation: \<open>open\<close> fails
  with an error number, or \<open>write\<close> fails (returns -1) with an error number, or \<open>write\<close>
  returns the number of bytes it accepted, which may be fewer than offered. The error
  number is the value of \<open>errno\<close> when the function returns; \<open>close\<close> and the logging call
  are taken not to change it.
\<close>

datatype sys_outcome = Open_fails int | Write_fails int | Write_returns nat

subsection \<open>Sysfs writers\<close>

definition write_int :: "string \<Rightarrow> 32 word \<Rightarrow> sys_outcome \<Rightarrow> world \<Rightarrow> int \<times> world" where
  "write_int path val io s =
     (case io of
        Write_returns amt \<Rightarrow>
          (0, s\<lparr>sysfs := sysfs s @ [(path, take amt (printf_d val @ [newline]))]\<rparr>)
      | Write_fails e \<Rightarrow> (- e, s)
      | Open_fails e \<Rightarrow>
          (- e,
           if write_int_warned s then s
           else s\<lparr>alog := alog s @ [''write_int failed to open '' @ path @ [newline]],
                  write_int_warned := True\<rparr>))"

definition write_str :: "string \<Rightarrow> string \<Rightarrow> sys_outcome \<Rightarrow> world \<Rightarrow> int \<times> world" where
  "write_str path val io s =
     (case io of
        Write_returns amt \<Rightarrow>
          (0, s\<lparr>sysfs := sysfs s @ [(path, take amt (val @ [newline]))]\<rparr>)
      | Write_fails e \<Rightarrow> (- e, s)
      | Open_fails e \<Rightarrow>
          (- e,
           if write_str_warned s then s
           else s\<lparr>alog := alog s @ [''write_str failed to open '' @ path @ [newline]],
                  write_str_warned := True\<rparr>))"

subsection \<open>Colour and brightness\<close>

text \<open>
  \<open>is_lit\<close> returns the masked colour as an \<open>int\<close>; callers test it against 0. In
  \<open>rgb_to_brightness\<close> the local \<open>int color\<close> holds 24 bits, so it is not negative and
  \<open>>>\<close> on it is \<open>drop_bit\<close>; the sum stays below \<open>2^16\<close> and does not wrap.
  \<open>set_light_backlight\<close> computes the brightness before it takes the lock.
\<close>

definition is_lit :: "light_state_t \<Rightarrow> 32 word" where
  "is_lit state = color state AND 0x00ffffff"

definition rgb_to_brightness :: "light_state_t \<Rightarrow> 32 word" where
  "rgb_to_brightness state =
     (let color = color state AND 0x00ffffff
      in drop_bit 8
           (77 * (drop_bit 16 color AND 0x00ff)
            + 150 * (drop_bit 8 color AND 0x00ff) + 29 * (color AND 0x00ff)))"

definition set_light_backlight :: "light_state_t \<Rightarrow> sys_outcome \<Rightarrow> world \<Rightarrow> int \<times> world" where
  "set_light_backlight state io s =
     (let brightness = rgb_to_brightness state
      in write_int LCD_FILE brightness io s)"

subsection \<open>The indicator LED\<close>

text \<open>
  \<open>set_light_locked\<close> in three steps, as its body has them: the switch on the flash mode
  (\<open>flash_timing\<close>, giving \<open>onMS\<close> and \<open>offMS\<close>), the brightness level, and the pattern
  that \<open>sprintf\<close> builds with \<open>"%x0000 %d %d 1 1"\<close>.
\<close>

definition flash_timing :: "light_state_t \<Rightarrow> 32 word \<times> 32 word" where
  "flash_timing state =
     (if flashMode state = LIGHT_FLASH_TIMED \<or> flashMode state = LIGHT_FLASH_HARDWARE
      then (flashOnMS state, flashOffMS state)
      else (0, 0))"

definition brightness_level :: "light_state_t \<Rightarrow> 32 word" where
  "brightness_level state =
     (if is_lit state \<noteq> 0
      then (if color state AND 0xff000000 \<noteq> 0
            then drop_bit 24 (color state AND 0xff000000) else LED_LIGHT_ON)
      else LED_LIGHT_OFF)"

definition blink_pattern :: "light_state_t \<Rightarrow> string" where
  "blink_pattern state =
     (case flash_timing state of
        (onMS, offMS) \<Rightarrow>
          printf_x (brightness_level state) @ ''0000 '' @ printf_d onMS @ '' ''
            @ printf_d offMS @ '' 1 1'')"

definition set_light_locked :: "light_state_t \<Rightarrow> sys_outcome \<Rightarrow> world \<Rightarrow> int \<times> world" where
  "set_light_locked state io s = write_str RGB_CONTROL_FILE (blink_pattern state) io s"

definition handle_led_prioritized_locked ::
  "light_state_t \<Rightarrow> sys_outcome \<Rightarrow> world \<Rightarrow> int \<times> world" where
  "handle_led_prioritized_locked state io s =
     (if is_lit (g_attention s) \<noteq> 0 then set_light_locked (g_attention s) io s
      else set_light_locked state io s)"

definition set_light_notifications ::
  "light_state_t \<Rightarrow> sys_outcome \<Rightarrow> world \<Rightarrow> int \<times> world" where
  "set_light_notifications state io s = handle_led_prioritized_locked state io s"

definition set_light_attention ::
  "light_state_t \<Rightarrow> sys_outcome \<Rightarrow> world \<Rightarrow> int \<times> world" where
  "set_light_attention state io s =
     handle_led_prioritized_locked state io (s\<lparr>g_attention := state\<rparr>)"

subsection \<open>Opening and closing a device\<close>

text \<open>
  \<open>pthread_once\<close> runs \<open>init_globals\<close> the first time only. \<open>init_globals\<close> initialises
  the mutex, which is no part of the sequential state.
\<close>

definition init_globals :: "world \<Rightarrow> world" where
  "init_globals s = s"

definition pthread_once :: "world \<Rightarrow> world" where
  "pthread_once s = (if g_init s then s else (init_globals s)\<lparr>g_init := True\<rparr>)"

text \<open>
  \<open>malloc\<close> hands out the next address; the source uses its result unchecked, and so
  exhaustion of memory is outside the model. \<open>memset\<close> clears the fresh device.
\<close>

definition malloc :: "world \<Rightarrow> nat \<times> world" where
  "malloc s = (Suc (brk s), s\<lparr>brk := Suc (brk s)\<rparr>)"

definition memset_0 :: light_device_t where
  "memset_0 = \<lparr>tag = 0, version = 0, module = 0, close = Null_fn, set_light = Null_fn\<rparr>"

text \<open>The chain of \<open>strcmp\<close> tests; \<open>None\<close> is the final \<open>else\<close>, which returns \<open>-EINVAL\<close>.\<close>

definition select_set_light :: "string \<Rightarrow> fn_ptr option" where
  "select_set_light name =
     (if LIGHT_ID_BACKLIGHT = name then Some Set_light_backlight
      else if LIGHT_ID_NOTIFICATIONS = name then Some Set_light_notifications
      else if LIGHT_ID_ATTENTION = name then Some Set_light_attention
      else None)"

text \<open>
  \<open>open_lights module_ptr name device\<close>: \<open>module_ptr\<close> is the address of the module,
  \<open>device\<close> is the value held by the caller's
  \<open>*device\<close> before the call; the result is the return code, the value of \<open>*device\<close>
  after the call and the new world.
\<close>

definition open_lights :: "nat \<Rightarrow> string \<Rightarrow> nat \<Rightarrow> world \<Rightarrow> int \<times> nat \<times> world" where
  "open_lights module_ptr name device s =
     (case select_set_light name of
        None \<Rightarrow> (- EINVAL, device, s)
      | Some f \<Rightarrow>
          (case malloc (pthread_once s) of
             (dev, s') \<Rightarrow>
               (0, dev,
                s'\<lparr>heap := (dev, memset_0\<lparr>tag := HARDWARE_DEVICE_TAG, version := 0,
                                 module := module_ptr, close := Close_lights, set_light := f\<rparr>)
                            # heap s'\<rparr>)))"

definition close_lights :: "nat \<Rightarrow> world \<Rightarrow> int \<times> world" where
  "close_lights dev s =
     (0, if dev \<noteq> 0 then s\<lparr>heap := filter (\<lambda>(a, d). a \<noteq> dev) (heap s)\<rparr> else s)"

text \<open>
  A call through the \<open>set_light\<close> pointer of a handle, \<open>dev->set_light(dev, state)\<close>;
  \<open>None\<close> when the pointer is not one of the three operations.
\<close>

fun call_set_light ::
  "fn_ptr \<Rightarrow> light_state_t \<Rightarrow> sys_outcome \<Rightarrow> world \<Rightarrow> (int \<times> world) option" where
  "call_set_light Set_light_backlight state io s = Some (set_light_backlight state io s)"
| "call_set_light Set_light_notifications state io s = Some (set_light_notifications state io s)"
| "call_set_light Set_light_attention state io s = Some (set_light_attention state io s)"
| "call_set_light Close_lights state io s = None"
| "call_set_light Null_fn state io s = None"

text \<open>The \<open>set_light\<close> pointer stored in the handle at address \<open>dev\<close>, if there is one.\<close>

definition handle_set_light :: "world \<Rightarrow> nat \<Rightarrow> fn_ptr option" where
  "handle_set_light s dev = map_option set_light (map_of (heap s) dev)"

subsection \<open>Concrete requests and a start state for the examples\<close>

definition world0 :: world where
  "world0 = \<lparr>g_init = False,
     g_attention = \<lparr>color = 0, flashMode = 0, flashOnMS = 0, flashOffMS = 0\<rparr>,
     write_int_warned = False, write_str_warned = False, alog = [], sysfs = [],
     heap = [], brk = 0\<rparr>"

definition red :: light_state_t where
  "red = \<lparr>color = 0x00FF0000, flashMode = LIGHT_FLASH_NONE, flashOnMS = 0, flashOffMS = 0\<rparr>"

subsection \<open>The backlight brightness as the spec words it\<close>

text \<open>
  The spec's \<open>toBacklightBrightness\<close>: R, G and B are the three low bytes of the colour,
  read as numbers, and the brightness is \<open>(77*R + 150*G + 29*B) >> 8\<close> computed on
  unbounded naturals. It is compared with \<open>rgb_to_brightness\<close> below.
\<close>

definition channel_R :: "32 word \<Rightarrow> nat" where
  "channel_R c = unat c div 65536 mod 256"

definition channel_G :: "32 word \<Rightarrow> nat" where
  "channel_G c = unat c div 256 mod 256"

definition channel_B :: "32 word \<Rightarrow> nat" where
  "channel_B c = unat c mod 256"

definition toBacklightBrightness_spec :: "32 word \<Rightarrow> nat" where
  "toBacklightBrightness_spec c =
     (77 * channel_R c + 150 * channel_G c + 29 * channel_B c) div 256"

subsection \<open>The indicator level and the blink pattern as the spec words them\<close>

text \<open>
  The spec's \<open>toIndicatorLevel\<close>, on the colour read as a number: 0 when the low 24 bits
  are zero; otherwise the top byte when it is not zero; otherwise 255.
\<close>

definition toIndicatorLevel_spec :: "32 word \<Rightarrow> nat" where
  "toIndicatorLevel_spec c =
     (if unat c mod 16777216 = 0 then 0
      else if unat c div 16777216 \<noteq> 0 then unat c div 16777216
      else 255)"

text \<open>
  The spec's \<open>toBlinkPattern\<close>: the level as two hexadecimal digits, then \<open>0000\<close>, the two
  durations and the two fixed ramp parameters.
\<close>

definition hex2 :: "nat \<Rightarrow> string" where
  "hex2 n = [digit_char (n div 16), digit_char (n mod 16)]"

definition toBlinkPattern_spec :: "nat \<Rightarrow> 32 word \<Rightarrow> 32 word \<Rightarrow> string" where
  "toBlinkPattern_spec level onMs offMs =
     hex2 level @ ''0000 '' @ printf_d onMs @ '' '' @ printf_d offMs @ '' 1 1''"

subsection \<open>Further concrete requests and states\<close>

definition blink :: light_state_t where
  "blink = \<lparr>color = 0x400000FF, flashMode = LIGHT_FLASH_TIMED,
     flashOnMS = 500, flashOffMS = 1000\<rparr>"

definition led_off :: light_state_t where
  "led_off = \<lparr>color = 0, flashMode = LIGHT_FLASH_NONE, flashOnMS = 0, flashOffMS = 0\<rparr>"

definition dim :: light_state_t where
  "dim = \<lparr>color = 0x05FFFFFF, flashMode = LIGHT_FLASH_NONE, flashOnMS = 0, flashOffMS = 0\<rparr>"

definition lit_world :: world where
  "lit_world = world0\<lparr>g_attention := red\<rparr>"

section \<open>Bytes of a colour as numbers\<close>

lemma mask8_numeral: "(0xff :: 32 word) = mask 8"
  by (simp add: mask_eq_exp_minus_1)

lemma mask24_numeral: "(0x00ffffff :: 32 word) = mask 24"
  by (simp add: mask_eq_exp_minus_1)

lemma unat_and_mask: "unat ((c :: 32 word) AND mask n) = unat c mod 2 ^ n"
proof -
  have "unat (c AND mask n) = unat (take_bit n c)"
    by (simp only: take_bit_eq_mask)
  also have "\<dots> = take_bit n (unat c)"
    by (simp only: unsigned_take_bit_eq)
  also have "\<dots> = unat c mod 2 ^ n"
    by (simp only: take_bit_eq_mod)
  finally show ?thesis .
qed

lemma unat_and_ff: "unat ((c :: 32 word) AND 0xff) = unat c mod 256"
  by (simp only: mask8_numeral unat_and_mask) simp

lemma unat_and_ffffff: "unat ((c :: 32 word) AND 0x00ffffff) = unat c mod 16777216"
  by (simp only: mask24_numeral unat_and_mask) simp

lemma unat_drop_bit_div: "unat (drop_bit n (c :: 32 word)) = unat c div 2 ^ n"
proof -
  have "unat (drop_bit n c) = drop_bit n (unat c)"
    by (rule unat_drop_bit_eq)
  then show ?thesis
    by (simp only: drop_bit_eq_div)
qed

lemma mod_div_chunk: "(n :: nat) mod (a * b) div a = n div a mod b"
  by (cases "a = 0") (simp_all add: mod_mult2_eq)

lemma mod_mod_chunk: "(n :: nat) mod (a * b) mod a = n mod a"
  by (simp add: mod_mult2_eq)

lemma channels_of_masked:
  fixes c :: "32 word"
  shows "unat (drop_bit 16 (c AND 0x00ffffff) AND 0xff) = channel_R c"
    and "unat (drop_bit 8 (c AND 0x00ffffff) AND 0xff) = channel_G c"
    and "unat ((c AND 0x00ffffff) AND 0xff) = channel_B c"
proof -
  let ?n = "unat c"
  have "(?n mod 16777216) div 65536 mod 256 = ?n div 65536 mod 256"
    using mod_div_chunk [of ?n 65536 256] by simp
  then show "unat (drop_bit 16 (c AND 0x00ffffff) AND 0xff) = channel_R c"
    by (simp only: unat_and_ff unat_drop_bit_div unat_and_ffffff channel_R_def) simp
  have "?n mod 16777216 div 256 = ?n div 256 mod 65536"
    using mod_div_chunk [of ?n 256 65536] by simp
  moreover have "?n div 256 mod 65536 mod 256 = ?n div 256 mod 256"
    using mod_mod_chunk [of "?n div 256" 256 256] by simp
  ultimately have "(?n mod 16777216) div 256 mod 256 = ?n div 256 mod 256"
    by simp
  then show "unat (drop_bit 8 (c AND 0x00ffffff) AND 0xff) = channel_G c"
    by (simp only: unat_and_ff unat_drop_bit_div unat_and_ffffff channel_G_def) simp
  have "(?n mod 16777216) mod 256 = ?n mod 256"
    using mod_mod_chunk [of ?n 256 65536] by simp
  then show "unat ((c AND 0x00ffffff) AND 0xff) = channel_B c"
    by (simp only: unat_and_ff unat_and_ffffff channel_B_def)
qed

lemma unat_rgb_to_brightness:
  "unat (rgb_to_brightness req) = toBacklightBrightness_spec (color req)"
proof -
  let ?m = "color req AND 0x00ffffff"
  let ?r = "drop_bit 16 ?m AND 0xff" and ?g = "drop_bit 8 ?m AND 0xff" and ?b = "?m AND 0xff"
  have r: "unat ?r < 256" and g: "unat ?g < 256" and b: "unat ?b < 256"
    by (simp_all add: unat_and_ff)
  have "unat (77 * ?r + 150 * ?g + 29 * ?b) = 77 * unat ?r + 150 * unat ?g + 29 * unat ?b"
    using r g b by (simp add: unat_word_ariths)
  then have "unat (drop_bit 8 (77 * ?r + 150 * ?g + 29 * ?b))
      = (77 * unat ?r + 150 * unat ?g + 29 * unat ?b) div 256"
    by (simp only: unat_drop_bit_div) simp
  then show ?thesis
    by (simp only: rgb_to_brightness_def Let_def channels_of_masked toBacklightBrightness_spec_def)
qed

lemma spec_brightness_le: "toBacklightBrightness_spec c \<le> 255"
proof -
  have "channel_R c < 256" "channel_G c < 256" "channel_B c < 256"
    by (simp_all add: channel_R_def channel_G_def channel_B_def)
  then show ?thesis
    unfolding toBacklightBrightness_spec_def by linarith
qed

lemma uint_small:
  fixes v :: "32 word"
  assumes "unat v < 2 ^ 31"
  shows "uint v < 2 ^ 31"
proof -
  have "int (unat v) < int (2 ^ 31)"
    using assms by (simp only: of_nat_less_iff)
  then show ?thesis by simp
qed

lemma signed_take_bit_small:
  fixes v :: "32 word"
  assumes "uint v < 2 ^ 31"
  shows "signed_take_bit 31 (uint v) = uint v"
proof (rule signed_take_bit_int_eq_self)
  show "- (2 ^ 31) \<le> uint v"
  proof -
    have "(0::int) \<le> uint v" by (rule uint_ge_0)
    moreover have "- (2 ^ 31) \<le> (0::int)" by simp
    ultimately show ?thesis by (rule order_trans [rotated])
  qed
  show "uint v < 2 ^ 31" by (rule assms)
qed

lemma sint_small:
  fixes v :: "32 word"
  assumes "unat v < 2 ^ 31"
  shows "sint v = int (unat v)"
proof -
  have "sint v = signed_take_bit 31 (uint v)"
    using sint_uint [of v] by simp
  also have "\<dots> = uint v"
    by (rule signed_take_bit_small [OF uint_small [OF assms]])
  finally show ?thesis by simp
qed

lemma printf_d_small: "unat v < 2 ^ 31 \<Longrightarrow> printf_d v = dec_digits (unat v)"
  by (simp add: printf_d_def sint_small)

section \<open>The backlight\<close>

text \<open>
  C4. For every request, \<open>set_light_backlight\<close> offers to the backlight file the decimal
  text of \<open>(77*R + 150*G + 29*B) >> 8\<close>, where R, G and B are the three low bytes of the
  colour (the file receives the first \<open>n\<close> bytes of that line when \<open>write\<close> accepts
  \<open>n\<close>). The value is the one \<open>rgb_to_brightness\<close> computes on 32-bit words, it is at
  most 255 for every 32-bit colour, and for the colour 0x00FF0000 it is 76: a complete
  write leaves the line "76".
\<close>

theorem set_light_backlight_writes_luma:
  "sysfs (snd (set_light_backlight req (Write_returns n) s))
     = sysfs s @ [(LCD_FILE,
         take n (dec_digits (toBacklightBrightness_spec (color req)) @ [newline]))]
   \<and> unat (rgb_to_brightness req) = toBacklightBrightness_spec (color req)
   \<and> toBacklightBrightness_spec (color req) \<le> 255
   \<and> rgb_to_brightness \<lparr>color = 0x00FF0000, flashMode = fm, flashOnMS = on, flashOffMS = off\<rparr>
       = 76
   \<and> sysfs (snd (set_light_backlight red (Write_returns 3) world0)) = [(LCD_FILE, ''76'' @ [newline])]"
proof -
  have "unat (rgb_to_brightness req) < 2 ^ 31"
    using spec_brightness_le [of "color req"] by (simp add: unat_rgb_to_brightness)
  then have "printf_d (rgb_to_brightness req)
      = dec_digits (toBacklightBrightness_spec (color req))"
    by (simp add: printf_d_small unat_rgb_to_brightness)
  then have "sysfs (snd (set_light_backlight req (Write_returns n) s))
      = sysfs s @ [(LCD_FILE,
          take n (dec_digits (toBacklightBrightness_spec (color req)) @ [newline]))]"
    by (simp add: set_light_backlight_def write_int_def)
  moreover have
    "rgb_to_brightness \<lparr>color = 0x00FF0000, flashMode = fm, flashOnMS = on, flashOffMS = off\<rparr>
       = 76"
    by (simp add: rgb_to_brightness_def)
  moreover have "sysfs (snd (set_light_backlight red (Write_returns 3) world0))
      = [(LCD_FILE, ''76'' @ [newline])]"
    by (simp add: set_light_backlight_def write_int_def rgb_to_brightness_def red_def
        world0_def printf_d_def dec_digits.simps digit_char_def)
  ultimately show ?thesis
    by (simp add: unat_rgb_to_brightness spec_brightness_le)
qed

section \<open>The indicator level\<close>

lemma high_byte_mask: "(c :: 32 word) AND 0xff000000 = push_bit 24 (drop_bit 24 c)"
proof -
  have "(0xff000000 :: 32 word) = NOT (mask 24)"
    by (simp add: mask_eq_exp_minus_1)
  then show ?thesis
    by (simp only: bit_eq_iff bit_simps) auto
qed

lemma drop_bit_high_byte: "drop_bit 24 ((c :: 32 word) AND 0xff000000) = drop_bit 24 c"
  by (auto simp add: high_byte_mask bit_eq_iff bit_simps dest: bit_imp_le_length)

lemma high_byte_zero_iff: "((c :: 32 word) AND 0xff000000 = 0) = (drop_bit 24 c = 0)"
proof
  assume "c AND 0xff000000 = 0"
  then have "drop_bit 24 (c AND 0xff000000) = 0" by simp
  then show "drop_bit 24 c = 0" by (simp only: drop_bit_high_byte)
next
  assume "drop_bit 24 c = 0"
  then show "c AND 0xff000000 = 0" by (simp only: high_byte_mask push_bit_of_0)
qed

lemma word_zero_iff_unat: "((w :: 32 word) = 0) = (unat w = 0)"
  by (simp add: unat_eq_0)

lemma is_lit_zero_iff: "(is_lit req = 0) = (unat (color req) mod 16777216 = 0)"
  by (simp only: is_lit_def word_zero_iff_unat unat_and_ffffff)

lemma unat_high_byte: "unat (drop_bit 24 (c :: 32 word)) = unat c div 16777216"
  by (simp only: unat_drop_bit_div) simp

lemma high_byte_zero_iff_unat:
  "((c :: 32 word) AND 0xff000000 = 0) = (unat c div 16777216 = 0)"
proof -
  have "(drop_bit 24 c = 0) = (unat (drop_bit 24 c) = 0)"
    by (rule word_zero_iff_unat)
  then show ?thesis
    by (simp only: high_byte_zero_iff unat_high_byte)
qed

lemma unat_high_byte_less: "unat (drop_bit 24 (c :: 32 word)) < 256"
proof -
  have "unat c < 2 ^ 32" using unsigned_less [of c] by simp
  then show ?thesis by (simp only: unat_high_byte) simp
qed

lemma unat_brightness_level: "unat (brightness_level req) = toIndicatorLevel_spec (color req)"
proof (cases "is_lit req = 0")
  case True
  then have "unat (color req) mod 16777216 = 0"
    using is_lit_zero_iff [of req] by blast
  with True show ?thesis
    by (simp add: brightness_level_def LED_LIGHT_OFF_def toIndicatorLevel_spec_def)
next
  case lit: False
  then have lit': "unat (color req) mod 16777216 \<noteq> 0"
    using is_lit_zero_iff [of req] by blast
  show ?thesis
  proof (cases "color req AND 0xff000000 = 0")
    case True
    then have "unat (color req) div 16777216 = 0"
      using high_byte_zero_iff_unat [of "color req"] by blast
    with lit lit' True show ?thesis
      by (simp add: brightness_level_def LED_LIGHT_ON_def toIndicatorLevel_spec_def)
  next
    case False
    then have nz: "unat (color req) div 16777216 \<noteq> 0"
      using high_byte_zero_iff_unat [of "color req"] by blast
    have "brightness_level req = drop_bit 24 (color req AND 0xff000000)"
      by (simp only: brightness_level_def lit False if_True simp_thms)
    then have "unat (brightness_level req) = unat (color req) div 16777216"
      by (simp only: drop_bit_high_byte unat_high_byte)
    with lit' nz show ?thesis
      by (simp add: toIndicatorLevel_spec_def)
  qed
qed

lemma toIndicatorLevel_spec_le: "toIndicatorLevel_spec c \<le> 255"
proof -
  have "unat c div 16777216 < 256"
    using unat_high_byte_less [of c] by (simp only: unat_high_byte)
  then show ?thesis
    by (simp add: toIndicatorLevel_spec_def)
qed

text \<open>
  C3. For every request the indicator level is 0 when the request is not lit (its low
  24 bits are zero); otherwise it is the top byte (bits 24 to 31) of the colour when that
  byte is not zero; otherwise it is 255. It never exceeds 255. For the pure red colour
  0x00FF0000 the level is 255, and with flash mode NONE the pattern is "ff0000 0 0 1 1".
\<close>

theorem indicator_level_of_request:
  "unat (brightness_level req) = toIndicatorLevel_spec (color req)
  \<and> toIndicatorLevel_spec (color req) \<le> 255
  \<and> brightness_level \<lparr>color = 0x00FF0000, flashMode = fm, flashOnMS = on, flashOffMS = off\<rparr> = 255
  \<and> blink_pattern \<lparr>color = 0x00FF0000, flashMode = LIGHT_FLASH_NONE, flashOnMS = on, flashOffMS = off\<rparr>
       = ''ff0000 0 0 1 1''"
proof -
  have "brightness_level \<lparr>color = 0x00FF0000, flashMode = fm, flashOnMS = on, flashOffMS = off\<rparr> = 255"
    by (simp add: brightness_level_def is_lit_def LED_LIGHT_ON_def)
  moreover have "blink_pattern \<lparr>color = 0x00FF0000, flashMode = LIGHT_FLASH_NONE, flashOnMS = on, flashOffMS = off\<rparr>
       = ''ff0000 0 0 1 1''"
    by (simp add: blink_pattern_def flash_timing_def brightness_level_def is_lit_def
        LED_LIGHT_ON_def LIGHT_FLASH_NONE_def LIGHT_FLASH_TIMED_def LIGHT_FLASH_HARDWARE_def
        printf_x_def printf_d_def hex_digits.simps dec_digits.simps digit_char_def)
  ultimately show ?thesis
    by (simp add: unat_brightness_level toIndicatorLevel_spec_le)
qed

section \<open>Arbitration between attention and notifications\<close>

lemmas eval_defs =
  blink_pattern_def flash_timing_def brightness_level_def is_lit_def
  LED_LIGHT_ON_def LED_LIGHT_OFF_def LIGHT_FLASH_NONE_def LIGHT_FLASH_TIMED_def
  LIGHT_FLASH_HARDWARE_def printf_x_def printf_d_def hex_digits.simps dec_digits.simps
  digit_char_def

lemma set_light_locked_sysfs:
  "sysfs (snd (set_light_locked st (Write_returns n) s))
     = sysfs s @ [(RGB_CONTROL_FILE, take n (blink_pattern st @ [newline]))]"
  by (simp add: set_light_locked_def write_str_def)

lemma notifications_lit:
  "is_lit (g_attention s) \<noteq> 0 \<Longrightarrow>
     set_light_notifications req io s = set_light_locked (g_attention s) io s"
  by (simp add: set_light_notifications_def handle_led_prioritized_locked_def)

lemma notifications_unlit:
  "is_lit (g_attention s) = 0 \<Longrightarrow>
     set_light_notifications req io s = set_light_locked req io s"
  by (simp add: set_light_notifications_def handle_led_prioritized_locked_def)

lemma g_attention_write_str [simp]: "g_attention (snd (write_str p v io s)) = g_attention s"
  by (cases io) (simp_all add: write_str_def)

lemma g_attention_write_int [simp]: "g_attention (snd (write_int p v io s)) = g_attention s"
  by (cases io) (simp_all add: write_int_def)

lemma g_attention_set_light_locked [simp]:
  "g_attention (snd (set_light_locked st io s)) = g_attention s"
  by (simp add: set_light_locked_def)

lemma g_attention_after_attention:
  "g_attention (snd (set_light_attention a io s)) = a"
  by (simp add: set_light_attention_def handle_led_prioritized_locked_def)

lemma set_light_attention_eq:
  "set_light_attention a io s = set_light_locked a io (s\<lparr>g_attention := a\<rparr>)"
  by (simp add: set_light_attention_def handle_led_prioritized_locked_def)

lemma blink_pattern_red: "blink_pattern red = ''ff0000 0 0 1 1''"
  by (simp add: red_def eval_defs)

lemma blink_pattern_blink: "blink_pattern blink = ''400000 500 1000 1 1''"
  by (simp add: blink_def eval_defs)

lemma blink_pattern_led_off: "blink_pattern led_off = ''00000 0 0 1 1''"
  by (simp add: led_off_def eval_defs)

lemma blink_pattern_dim: "blink_pattern dim = ''50000 0 0 1 1''"
  by (simp add: dim_def eval_defs)

text \<open>
  C1. \<open>set_light_notifications\<close> resolves every request against the current
  \<open>g_attention\<close>. While \<open>g_attention\<close> is lit, the write to the LED control file is the
  one for \<open>g_attention\<close> (its level and blink pattern) and does not depend on the request.
  While \<open>g_attention\<close> is unlit (\<open>color AND 0x00FFFFFF = 0\<close>), the write is the one for the
  request. In particular, after \<open>set_light_attention\<close> has stored an unlit request, whatever
  the outcome of its own write, the next \<open>set_light_notifications\<close> drives the LED from
  its own request.
\<close>

theorem notifications_resolve_against_attention:
  "(is_lit (g_attention s) \<noteq> 0 \<longrightarrow>
      set_light_notifications req io s = set_light_locked (g_attention s) io s
      \<and> set_light_notifications req io s = set_light_notifications req' io s
      \<and> sysfs (snd (set_light_notifications req (Write_returns n) s))
          = sysfs s @ [(RGB_CONTROL_FILE, take n (blink_pattern (g_attention s) @ [newline]))])
   \<and> (color (g_attention s) AND 0x00FFFFFF = 0 \<longrightarrow>
      set_light_notifications req io s = set_light_locked req io s
      \<and> sysfs (snd (set_light_notifications req (Write_returns n) s))
          = sysfs s @ [(RGB_CONTROL_FILE, take n (blink_pattern req @ [newline]))])
   \<and> (color a AND 0x00FFFFFF = 0 \<longrightarrow>
      set_light_notifications req io (snd (set_light_attention a io' s))
        = set_light_locked req io (snd (set_light_attention a io' s))
      \<and> sysfs (snd (set_light_notifications req (Write_returns n)
            (snd (set_light_attention a io' s))))
          = sysfs (snd (set_light_attention a io' s))
              @ [(RGB_CONTROL_FILE, take n (blink_pattern req @ [newline]))])"
proof (intro conjI impI)
  assume lit: "is_lit (g_attention s) \<noteq> 0"
  show "set_light_notifications req io s = set_light_locked (g_attention s) io s"
    by (rule notifications_lit [OF lit])
  show "set_light_notifications req io s = set_light_notifications req' io s"
    by (simp only: notifications_lit [OF lit])
  show "sysfs (snd (set_light_notifications req (Write_returns n) s))
      = sysfs s @ [(RGB_CONTROL_FILE, take n (blink_pattern (g_attention s) @ [newline]))]"
    by (simp only: notifications_lit [OF lit] set_light_locked_sysfs)
next
  assume "color (g_attention s) AND 0x00FFFFFF = 0"
  then have unlit: "is_lit (g_attention s) = 0"
    by (simp add: is_lit_def)
  show "set_light_notifications req io s = set_light_locked req io s"
    by (rule notifications_unlit [OF unlit])
  show "sysfs (snd (set_light_notifications req (Write_returns n) s))
      = sysfs s @ [(RGB_CONTROL_FILE, take n (blink_pattern req @ [newline]))]"
    by (simp only: notifications_unlit [OF unlit] set_light_locked_sysfs)
next
  assume "color a AND 0x00FFFFFF = 0"
  then have "is_lit (g_attention (snd (set_light_attention a io' s))) = 0"
    by (simp add: g_attention_after_attention is_lit_def)
  then have eq: "set_light_notifications req io (snd (set_light_attention a io' s))
      = set_light_locked req io (snd (set_light_attention a io' s))" for io
    by (rule notifications_unlit)
  show "set_light_notifications req io (snd (set_light_attention a io' s))
      = set_light_locked req io (snd (set_light_attention a io' s))"
    by (rule eq)
  show "sysfs (snd (set_light_notifications req (Write_returns n)
            (snd (set_light_attention a io' s))))
          = sysfs (snd (set_light_attention a io' s))
              @ [(RGB_CONTROL_FILE, take n (blink_pattern req @ [newline]))]"
    by (simp only: eq set_light_locked_sysfs)
qed

theorem notifications_resolve_against_attention_witness:
  "is_lit (g_attention lit_world) \<noteq> 0
   \<and> sysfs (snd (set_light_notifications blink (Write_returns 15) lit_world))
       = [(RGB_CONTROL_FILE, ''ff0000 0 0 1 1'' @ [newline])]
   \<and> color (g_attention world0) AND 0x00FFFFFF = 0
   \<and> sysfs (snd (set_light_notifications blink (Write_returns 20) world0))
       = [(RGB_CONTROL_FILE, ''400000 500 1000 1 1'' @ [newline])]
   \<and> color led_off AND 0x00FFFFFF = 0
   \<and> sysfs (snd (set_light_notifications blink (Write_returns 20)
          (snd (set_light_attention led_off (Write_fails 5) lit_world))))
       = [(RGB_CONTROL_FILE, ''400000 500 1000 1 1'' @ [newline])]"
proof -
  have lit: "is_lit (g_attention lit_world) \<noteq> 0"
    by (simp add: lit_world_def red_def is_lit_def)
  have unlit: "color (g_attention world0) AND 0x00FFFFFF = 0"
    by (simp add: world0_def)
  have off: "color led_off AND 0x00FFFFFF = 0"
    by (simp add: led_off_def)
  have after: "sysfs (snd (set_light_attention led_off (Write_fails 5) lit_world)) = []"
    by (simp add: set_light_attention_eq set_light_locked_def write_str_def lit_world_def
        world0_def)
  have "sysfs (snd (set_light_notifications blink (Write_returns 15) lit_world))
      = sysfs lit_world
          @ [(RGB_CONTROL_FILE, take 15 (blink_pattern (g_attention lit_world) @ [newline]))]"
    using lit
      notifications_resolve_against_attention [where s = lit_world and req = blink and io = "Write_returns 15"
            and req' = blink and n = 15 and a = led_off and io' = "Write_fails 5"]
    by blast
  then have 1: "sysfs (snd (set_light_notifications blink (Write_returns 15) lit_world))
      = [(RGB_CONTROL_FILE, ''ff0000 0 0 1 1'' @ [newline])]"
    by (simp add: lit_world_def world0_def blink_pattern_red)
  have "sysfs (snd (set_light_notifications blink (Write_returns 20) world0))
      = sysfs world0 @ [(RGB_CONTROL_FILE, take 20 (blink_pattern blink @ [newline]))]"
    using unlit
      notifications_resolve_against_attention [where s = world0 and req = blink and io = "Write_returns 20"
            and req' = blink and n = 20 and a = led_off and io' = "Write_fails 5"]
    by blast
  then have 2: "sysfs (snd (set_light_notifications blink (Write_returns 20) world0))
      = [(RGB_CONTROL_FILE, ''400000 500 1000 1 1'' @ [newline])]"
    by (simp add: world0_def blink_pattern_blink)
  have "sysfs (snd (set_light_notifications blink (Write_returns 20)
          (snd (set_light_attention led_off (Write_fails 5) lit_world))))
      = sysfs (snd (set_light_attention led_off (Write_fails 5) lit_world))
          @ [(RGB_CONTROL_FILE, take 20 (blink_pattern blink @ [newline]))]"
    using off
      notifications_resolve_against_attention [where s = lit_world and req = blink and io = "Write_returns 20"
            and req' = blink and n = 20 and a = led_off and io' = "Write_fails 5"]
    by blast
  then have 3: "sysfs (snd (set_light_notifications blink (Write_returns 20)
          (snd (set_light_attention led_off (Write_fails 5) lit_world))))
      = [(RGB_CONTROL_FILE, ''400000 500 1000 1 1'' @ [newline])]"
    by (simp add: after blink_pattern_blink)
  from lit 1 unlit 2 off 3 show ?thesis
    by (intro conjI)
qed

text \<open>
  C5. For every request, \<open>is_lit\<close> is 0 (not lit) if and only if
  \<open>color AND 0x00FFFFFF = 0\<close>, that is, if and only if the colour read as a number is a
  multiple of \<open>2^24\<close>. A request with colour 0x80000000 (alpha set, no red, green or blue)
  is not lit, and while it is the attention state, also right after
  \<open>set_light_attention\<close> stored it, \<open>set_light_notifications\<close> drives the LED from its own
  request.
\<close>

theorem is_lit_ignores_alpha:
  "(is_lit req = 0) = (color req AND 0x00FFFFFF = 0)
   \<and> (is_lit req = 0) = (unat (color req) mod 16777216 = 0)
   \<and> is_lit \<lparr>color = 0x80000000, flashMode = fm, flashOnMS = on, flashOffMS = off\<rparr> = 0
   \<and> set_light_notifications req io
         (s\<lparr>g_attention := \<lparr>color = 0x80000000, flashMode = fm, flashOnMS = on, flashOffMS = off\<rparr>\<rparr>)
       = set_light_locked req io
         (s\<lparr>g_attention := \<lparr>color = 0x80000000, flashMode = fm, flashOnMS = on, flashOffMS = off\<rparr>\<rparr>)
   \<and> set_light_notifications req io
         (snd (set_light_attention
            \<lparr>color = 0x80000000, flashMode = fm, flashOnMS = on, flashOffMS = off\<rparr> io' s))
       = set_light_locked req io
         (snd (set_light_attention
            \<lparr>color = 0x80000000, flashMode = fm, flashOnMS = on, flashOffMS = off\<rparr> io' s))"
proof -
  let ?a = "\<lparr>color = 0x80000000, flashMode = fm, flashOnMS = on, flashOffMS = off\<rparr>"
  have unlit: "is_lit ?a = 0"
    by (simp add: is_lit_def)
  have 1: "(is_lit req = 0) = (color req AND 0x00FFFFFF = 0)"
    by (simp add: is_lit_def)
  have 2: "set_light_notifications req io (s\<lparr>g_attention := ?a\<rparr>)
      = set_light_locked req io (s\<lparr>g_attention := ?a\<rparr>)"
    by (rule notifications_unlit) (simp add: unlit)
  have 3: "set_light_notifications req io (snd (set_light_attention ?a io' s))
      = set_light_locked req io (snd (set_light_attention ?a io' s))"
    by (rule notifications_unlit) (simp add: g_attention_after_attention unlit)
  from 1 is_lit_zero_iff [of req] unlit 2 3 show ?thesis
    by (intro conjI)
qed

section \<open>The text written to the LED control file\<close>

lemma hex_digits_small: "n < 16 \<Longrightarrow> hex_digits n = [digit_char n]"
  by (simp add: hex_digits.simps)

lemma hex_digits_two: "16 \<le> n \<Longrightarrow> n < 256 \<Longrightarrow> hex_digits n = hex2 n"
proof -
  assume a: "16 \<le> n" and b: "n < 256"
  then have "n div 16 < 16" by simp
  then have "hex_digits (n div 16) = [digit_char (n div 16)]"
    by (rule hex_digits_small)
  moreover have "hex_digits n = hex_digits (n div 16) @ [digit_char (n mod 16)]"
    using a by (subst hex_digits.simps) simp
  ultimately show ?thesis
    by (simp add: hex2_def)
qed

lemma unat_brightness_level_less: "unat (brightness_level req) < 256"
  using toIndicatorLevel_spec_le [of "color req"] by (simp add: unat_brightness_level)

lemma brightness_level_led_off: "unat (brightness_level led_off) = 0"
  by (simp add: led_off_def brightness_level_def is_lit_def LED_LIGHT_OFF_def)

lemma brightness_level_dim: "unat (brightness_level dim) = 5"
  by (simp add: dim_def brightness_level_def is_lit_def)

lemma printf_d_0: "printf_d 0 = ''0''"
  by (simp add: printf_d_def dec_digits.simps digit_char_def)

text \<open>
  C2, as the code has it. The pattern is the level in lower-case hexadecimal without
  padding (\<open>%x\<close>: one digit when the level is below 16, two digits otherwise), followed
  by \<open>0000\<close>, a space, the on and off durations in decimal separated by a space, and
  \<open> 1 1\<close>; \<open>write_str\<close> appends the newline. The durations are those of the request
  when its flash mode is TIMED or HARDWARE and both 0 for NONE and for any other value.
  The pattern is the spec's two-digit form exactly when the level is at least 16.
\<close>

theorem blink_pattern_format:
  "blink_pattern req
     = (if unat (brightness_level req) < 16 then [digit_char (unat (brightness_level req))]
        else hex2 (unat (brightness_level req)))
       @ ''0000 '' @ printf_d (fst (flash_timing req)) @ '' ''
       @ printf_d (snd (flash_timing req)) @ '' 1 1''
   \<and> flash_timing req
     = (if flashMode req = LIGHT_FLASH_TIMED \<or> flashMode req = LIGHT_FLASH_HARDWARE
        then (flashOnMS req, flashOffMS req) else (0, 0))
   \<and> (blink_pattern req
        = toBlinkPattern_spec (unat (brightness_level req)) (fst (flash_timing req))
            (snd (flash_timing req)))
     = (16 \<le> unat (brightness_level req))
   \<and> sysfs (snd (set_light_locked req (Write_returns n) s))
     = sysfs s @ [(RGB_CONTROL_FILE, take n (blink_pattern req @ [newline]))]"
proof -
  let ?l = "unat (brightness_level req)"
  have hex: "hex_digits ?l = (if ?l < 16 then [digit_char ?l] else hex2 ?l)"
    using unat_brightness_level_less [of req]
    by (simp add: hex_digits_small hex_digits_two)
  have pat: "blink_pattern req
      = hex_digits ?l @ ''0000 '' @ printf_d (fst (flash_timing req)) @ '' ''
        @ printf_d (snd (flash_timing req)) @ '' 1 1''"
    by (simp add: blink_pattern_def printf_x_def split: prod.splits)
  have 1: "blink_pattern req
      = (if ?l < 16 then [digit_char ?l] else hex2 ?l)
        @ ''0000 '' @ printf_d (fst (flash_timing req)) @ '' ''
        @ printf_d (snd (flash_timing req)) @ '' 1 1''"
    by (simp only: pat hex)
  have 3: "(blink_pattern req
        = toBlinkPattern_spec ?l (fst (flash_timing req)) (snd (flash_timing req)))
      = (16 \<le> ?l)"
  proof (cases "?l < 16")
    case True
    then have "length (blink_pattern req)
        \<noteq> length (toBlinkPattern_spec ?l (fst (flash_timing req)) (snd (flash_timing req)))"
      by (simp add: 1 toBlinkPattern_spec_def hex2_def)
    then have "blink_pattern req
        \<noteq> toBlinkPattern_spec ?l (fst (flash_timing req)) (snd (flash_timing req))"
      by auto
    with True show ?thesis by simp
  next
    case False
    then show ?thesis
      by (simp add: 1 toBlinkPattern_spec_def)
  qed
  from 1 flash_timing_def [of req] 3 set_light_locked_sysfs [of req n s] show ?thesis
    by (intro conjI)
qed

text \<open>
  The two-digit form fails for a level below 16: switching the LED off writes
  \<open>00000 0 0 1 1\<close> (one digit for level 0) where the two-digit form is
  \<open>000000 0 0 1 1\<close>, and the level 5 writes \<open>50000 0 0 1 1\<close>.
\<close>

theorem blink_pattern_not_two_digit_hex:
  "blink_pattern led_off
     \<noteq> toBlinkPattern_spec (unat (brightness_level led_off)) (fst (flash_timing led_off))
         (snd (flash_timing led_off))
   \<and> blink_pattern led_off = ''00000 0 0 1 1''
   \<and> toBlinkPattern_spec (unat (brightness_level led_off)) 0 0 = ''000000 0 0 1 1''
   \<and> blink_pattern dim = ''50000 0 0 1 1''
   \<and> toBlinkPattern_spec (unat (brightness_level dim)) 0 0 = ''050000 0 0 1 1''
   \<and> sysfs (snd (set_light_notifications led_off (Write_returns 14) world0))
       = [(RGB_CONTROL_FILE, ''00000 0 0 1 1'' @ [newline])]"
proof -
  have 1: "toBlinkPattern_spec (unat (brightness_level led_off)) 0 0 = ''000000 0 0 1 1''"
    by (simp add: brightness_level_led_off toBlinkPattern_spec_def hex2_def printf_d_0
        digit_char_def)
  have 2: "toBlinkPattern_spec (unat (brightness_level dim)) 0 0 = ''050000 0 0 1 1''"
    by (simp add: brightness_level_dim toBlinkPattern_spec_def hex2_def printf_d_0
        digit_char_def)
  have "is_lit (g_attention world0) = 0"
    by (simp add: world0_def is_lit_def)
  then have "set_light_notifications led_off (Write_returns 14) world0
      = set_light_locked led_off (Write_returns 14) world0"
    by (rule notifications_unlit)
  then have 3: "sysfs (snd (set_light_notifications led_off (Write_returns 14) world0))
      = [(RGB_CONTROL_FILE, ''00000 0 0 1 1'' @ [newline])]"
    by (simp add: set_light_locked_sysfs blink_pattern_led_off world0_def)
  have "flash_timing led_off = (0, 0)"
    by (simp add: flash_timing_def led_off_def LIGHT_FLASH_NONE_def LIGHT_FLASH_TIMED_def
        LIGHT_FLASH_HARDWARE_def)
  then have 0: "blink_pattern led_off
      \<noteq> toBlinkPattern_spec (unat (brightness_level led_off)) (fst (flash_timing led_off))
          (snd (flash_timing led_off))"
    by (simp add: 1 blink_pattern_led_off)
  from 0 blink_pattern_led_off 1 blink_pattern_dim 2 3 show ?thesis
    by (intro conjI)
qed

section \<open>Result codes\<close>

lemma fst_write_int:
  "fst (write_int p v io s)
     = (case io of Write_returns amt \<Rightarrow> 0 | Write_fails e \<Rightarrow> - e | Open_fails e \<Rightarrow> - e)"
  by (cases io) (simp_all add: write_int_def)

lemma fst_write_str:
  "fst (write_str p v io s)
     = (case io of Write_returns amt \<Rightarrow> 0 | Write_fails e \<Rightarrow> - e | Open_fails e \<Rightarrow> - e)"
  by (cases io) (simp_all add: write_str_def)

lemma fst_set_light_locked: "fst (set_light_locked st io s) = fst (write_str RGB_CONTROL_FILE v io s')"
  by (simp add: set_light_locked_def fst_write_str)

text \<open>
  C7. \<open>write_int\<close> and \<open>write_str\<close> return 0 when \<open>write\<close> does not report failure, for
  every number of bytes it accepted (a short write, even of no byte at all, is a
  success), and the negated error number when \<open>open\<close> or \<open>write\<close> fails. Each of
  \<open>set_light_backlight\<close>, \<open>set_light_notifications\<close> and \<open>set_light_attention\<close> returns the
  result of its writer unchanged.
\<close>

theorem sysfs_write_result_codes:
  "fst (write_int path v (Write_returns amt) s) = 0
   \<and> fst (write_int path v (Write_fails e) s) = - e
   \<and> fst (write_int path v (Open_fails e) s) = - e
   \<and> fst (write_str path str (Write_returns amt) s) = 0
   \<and> fst (write_str path str (Write_fails e) s) = - e
   \<and> fst (write_str path str (Open_fails e) s) = - e
   \<and> fst (write_str path str (Write_returns 0) s) = 0
   \<and> sysfs (snd (write_str path str (Write_returns 0) s)) = sysfs s @ [(path, [])]
   \<and> fst (set_light_backlight req io s) = fst (write_int LCD_FILE (rgb_to_brightness req) io s)
   \<and> fst (set_light_notifications req io s)
       = fst (write_str RGB_CONTROL_FILE
               (blink_pattern (if is_lit (g_attention s) \<noteq> 0 then g_attention s else req)) io s)
   \<and> fst (set_light_attention req io s)
       = fst (write_str RGB_CONTROL_FILE (blink_pattern req) io (s\<lparr>g_attention := req\<rparr>))
   \<and> fst (set_light_backlight req (Write_returns amt) s) = 0
   \<and> fst (set_light_backlight req (Write_fails e) s) = - e
   \<and> fst (set_light_backlight req (Open_fails e) s) = - e
   \<and> fst (set_light_notifications req (Write_returns amt) s) = 0
   \<and> fst (set_light_notifications req (Write_fails e) s) = - e
   \<and> fst (set_light_notifications req (Open_fails e) s) = - e
   \<and> fst (set_light_attention req (Write_returns amt) s) = 0
   \<and> fst (set_light_attention req (Write_fails e) s) = - e
   \<and> fst (set_light_attention req (Open_fails e) s) = - e"
  by (simp add: fst_write_int fst_write_str set_light_backlight_def set_light_notifications_def
      set_light_attention_def handle_led_prioritized_locked_def set_light_locked_def
      write_str_def)

section \<open>What the operations do to the attention state\<close>

lemma g_attention_backlight: "g_attention (snd (set_light_backlight req io s)) = g_attention s"
  by (simp add: set_light_backlight_def)

lemma g_attention_notifications:
  "g_attention (snd (set_light_notifications req io s)) = g_attention s"
  by (simp add: set_light_notifications_def handle_led_prioritized_locked_def)

lemma write_int_frame:
  "write_int p v io (s\<lparr>g_attention := a\<rparr>)
     = (fst (write_int p v io s), (snd (write_int p v io s))\<lparr>g_attention := a\<rparr>)"
  by (cases io) (simp_all add: write_int_def)

text \<open>
  C8, as the code has it. \<open>set_light_notifications\<close> leaves \<open>g_attention\<close> as it was, for
  every request and every outcome of the write. \<open>set_light_backlight\<close> neither reads nor
  writes \<open>g_attention\<close>: its result does not depend on it and it hands it on unchanged.
  A failed write in these two operations therefore leaves \<open>g_attention\<close> as it was.
  \<open>set_light_attention\<close> stores its request in \<open>g_attention\<close> before it writes, and the
  request stays there whatever the outcome of the write, a failure included.
\<close>

theorem attention_state_frame:
  "g_attention (snd (set_light_notifications req io s)) = g_attention s
   \<and> g_attention (snd (set_light_backlight req io s)) = g_attention s
   \<and> fst (set_light_backlight req io (s\<lparr>g_attention := a\<rparr>)) = fst (set_light_backlight req io s)
   \<and> snd (set_light_backlight req io (s\<lparr>g_attention := a\<rparr>))
       = (snd (set_light_backlight req io s))\<lparr>g_attention := a\<rparr>
   \<and> g_attention (snd (set_light_attention req io s)) = req
   \<and> g_attention (snd (set_light_attention req (Write_fails e) s)) = req
   \<and> g_attention (snd (set_light_attention req (Open_fails e) s)) = req"
  by (simp add: g_attention_notifications g_attention_backlight g_attention_after_attention
      set_light_backlight_def Let_def write_int_frame)

text \<open>
  A failed write does not always leave \<open>g_attention\<close> as it was before the call:
  \<open>set_light_attention\<close> with a write that fails returns the error and has replaced
  the attention state by its request.
\<close>

theorem set_light_attention_failed_write_stores_request:
  "fst (set_light_attention red (Write_fails 5) world0) = - 5
   \<and> g_attention (snd (set_light_attention red (Write_fails 5) world0)) = red
   \<and> g_attention (snd (set_light_attention red (Write_fails 5) world0)) \<noteq> g_attention world0"
proof -
  have "g_attention world0 \<noteq> red"
    by (simp add: world0_def red_def)
  then show ?thesis
    by (simp add: g_attention_after_attention set_light_attention_eq fst_set_light_locked
        fst_write_str set_light_locked_def)
qed

text \<open>
  C10. For every request, what \<open>set_light_attention\<close> returns and what it appends to the
  LED control file do not depend on the attention state held before the call: two runs
  from states that differ in \<open>g_attention\<close> only end in the same result and the same
  state, and two runs from any two states return the same code and append the same
  bytes, which on a successful write are the pattern of the request itself.
\<close>

theorem set_light_attention_independent_of_prior_attention:
  "set_light_attention req io (s\<lparr>g_attention := a1\<rparr>)
     = set_light_attention req io (s\<lparr>g_attention := a2\<rparr>)
   \<and> fst (set_light_attention req io s1) = fst (set_light_attention req io s2)
   \<and> (\<exists>w. sysfs (snd (set_light_attention req io s1)) = sysfs s1 @ w
          \<and> sysfs (snd (set_light_attention req io s2)) = sysfs s2 @ w)
   \<and> sysfs (snd (set_light_attention req (Write_returns n) s1))
       = sysfs s1 @ [(RGB_CONTROL_FILE, take n (blink_pattern req @ [newline]))]"
proof -
  have 1: "set_light_attention req io (s\<lparr>g_attention := a1\<rparr>)
     = set_light_attention req io (s\<lparr>g_attention := a2\<rparr>)"
    by (simp add: set_light_attention_eq)
  have 2: "fst (set_light_attention req io s1) = fst (set_light_attention req io s2)"
    by (simp add: set_light_attention_eq set_light_locked_def fst_write_str)
  have w: "sysfs (snd (set_light_attention req io t))
      = sysfs t @ (case io of Write_returns n \<Rightarrow>
            [(RGB_CONTROL_FILE, take n (blink_pattern req @ [newline]))] | _ \<Rightarrow> [])" for t
    by (cases io) (simp_all add: set_light_attention_eq set_light_locked_def write_str_def)
  have 3: "\<exists>w. sysfs (snd (set_light_attention req io s1)) = sysfs s1 @ w
          \<and> sysfs (snd (set_light_attention req io s2)) = sysfs s2 @ w"
    using w [of s1] w [of s2] by blast
  have 4: "sysfs (snd (set_light_attention req (Write_returns n) s1))
       = sysfs s1 @ [(RGB_CONTROL_FILE, take n (blink_pattern req @ [newline]))]"
    by (simp add: set_light_attention_eq set_light_locked_sysfs)
  from 1 2 3 4 show ?thesis by (intro conjI)
qed

section \<open>Opening a device\<close>

lemma select_set_light_simps:
  "select_set_light ''backlight'' = Some Set_light_backlight"
  "select_set_light ''notifications'' = Some Set_light_notifications"
  "select_set_light ''attention'' = Some Set_light_attention"
  by (simp_all add: select_set_light_def LIGHT_ID_BACKLIGHT_def LIGHT_ID_NOTIFICATIONS_def
      LIGHT_ID_ATTENTION_def)

lemma select_set_light_None:
  "(select_set_light name = None)
     = (name \<noteq> ''backlight'' \<and> name \<noteq> ''notifications'' \<and> name \<noteq> ''attention'')"
  by (auto simp add: select_set_light_def LIGHT_ID_BACKLIGHT_def LIGHT_ID_NOTIFICATIONS_def
      LIGHT_ID_ATTENTION_def)

lemma select_set_light_Some:
  "select_set_light name = Some f \<Longrightarrow>
     name = ''backlight'' \<or> name = ''notifications'' \<or> name = ''attention''"
  by (auto simp add: select_set_light_def LIGHT_ID_BACKLIGHT_def LIGHT_ID_NOTIFICATIONS_def
      LIGHT_ID_ATTENTION_def split: if_splits)

lemma open_lights_None:
  "select_set_light name = None \<Longrightarrow> open_lights m name device s = (- EINVAL, device, s)"
  by (simp add: open_lights_def)

lemma open_lights_Some:
  assumes "select_set_light name = Some f"
  shows "fst (open_lights m name device s) = 0"
    and "fst (snd (open_lights m name device s)) = Suc (brk s)"
    and "handle_set_light (snd (snd (open_lights m name device s)))
           (fst (snd (open_lights m name device s))) = Some f"
    and "sysfs (snd (snd (open_lights m name device s))) = sysfs s"
    and "g_attention (snd (snd (open_lights m name device s))) = g_attention s"
  using assms
  by (simp_all add: open_lights_def malloc_def pthread_once_def init_globals_def
      handle_set_light_def)

lemma EINVAL_pos: "- EINVAL < 0"
  by (simp add: EINVAL_def)

text \<open>
  C6. \<open>open_lights\<close> returns 0 exactly when the name is one of "backlight",
  "notifications" and "attention"; the handle it then produces is not \<open>NULL\<close> and its
  \<open>set_light\<close> pointer is the matching operation, so that a call through it runs that
  operation. For every other name it returns \<open>-EINVAL\<close>, which is negative, and changes
  nothing: no device is allocated and the caller's \<open>*device\<close> keeps its value.
\<close>

theorem open_lights_recognized_ids:
  "(fst (open_lights m name device s) = 0)
     = (name = ''backlight'' \<or> name = ''notifications'' \<or> name = ''attention'')
   \<and> (name \<noteq> ''backlight'' \<and> name \<noteq> ''notifications'' \<and> name \<noteq> ''attention'' \<longrightarrow>
        open_lights m name device s = (- EINVAL, device, s))
   \<and> - EINVAL < 0
   \<and> (name = ''backlight'' \<longrightarrow>
        fst (snd (open_lights m name device s)) \<noteq> 0
        \<and> handle_set_light (snd (snd (open_lights m name device s)))
            (fst (snd (open_lights m name device s))) = Some Set_light_backlight
        \<and> call_set_light Set_light_backlight req io w = Some (set_light_backlight req io w))
   \<and> (name = ''notifications'' \<longrightarrow>
        fst (snd (open_lights m name device s)) \<noteq> 0
        \<and> handle_set_light (snd (snd (open_lights m name device s)))
            (fst (snd (open_lights m name device s))) = Some Set_light_notifications
        \<and> call_set_light Set_light_notifications req io w
            = Some (set_light_notifications req io w))
   \<and> (name = ''attention'' \<longrightarrow>
        fst (snd (open_lights m name device s)) \<noteq> 0
        \<and> handle_set_light (snd (snd (open_lights m name device s)))
            (fst (snd (open_lights m name device s))) = Some Set_light_attention
        \<and> call_set_light Set_light_attention req io w = Some (set_light_attention req io w))"
proof (intro conjI impI)
  show "(fst (open_lights m name device s) = 0)
     = (name = ''backlight'' \<or> name = ''notifications'' \<or> name = ''attention'')"
  proof (cases "select_set_light name")
    case None
    then have "fst (open_lights m name device s) = - EINVAL"
      by (simp add: open_lights_None)
    moreover from None
    have "name \<noteq> ''backlight'' \<and> name \<noteq> ''notifications'' \<and> name \<noteq> ''attention''"
      using select_set_light_None [of name] by (rule iffD1 [rotated])
    ultimately show ?thesis
      by (simp add: EINVAL_def)
  next
    case (Some f)
    then have "name = ''backlight'' \<or> name = ''notifications'' \<or> name = ''attention''"
      by (rule select_set_light_Some)
    with open_lights_Some(1) [OF Some] show ?thesis
      by simp
  qed
next
  assume "name \<noteq> ''backlight'' \<and> name \<noteq> ''notifications'' \<and> name \<noteq> ''attention''"
  then have "select_set_light name = None"
    using select_set_light_None [of name] by (rule iffD2 [rotated])
  then show "open_lights m name device s = (- EINVAL, device, s)"
    by (rule open_lights_None)
next
  show "- EINVAL < 0" by (rule EINVAL_pos)
next
  assume n: "name = ''backlight''"
  note sel = select_set_light_simps(1)
  show "fst (snd (open_lights m name device s)) \<noteq> 0"
    by (simp add: n open_lights_Some(2) [OF sel])
  show "handle_set_light (snd (snd (open_lights m name device s)))
      (fst (snd (open_lights m name device s))) = Some Set_light_backlight"
    unfolding n by (rule open_lights_Some(3) [OF sel])
  show "call_set_light Set_light_backlight req io w = Some (set_light_backlight req io w)"
    by simp
next
  assume n: "name = ''notifications''"
  note sel = select_set_light_simps(2)
  show "fst (snd (open_lights m name device s)) \<noteq> 0"
    by (simp add: n open_lights_Some(2) [OF sel])
  show "handle_set_light (snd (snd (open_lights m name device s)))
      (fst (snd (open_lights m name device s))) = Some Set_light_notifications"
    unfolding n by (rule open_lights_Some(3) [OF sel])
  show "call_set_light Set_light_notifications req io w
      = Some (set_light_notifications req io w)"
    by simp
next
  assume n: "name = ''attention''"
  note sel = select_set_light_simps(3)
  show "fst (snd (open_lights m name device s)) \<noteq> 0"
    by (simp add: n open_lights_Some(2) [OF sel])
  show "handle_set_light (snd (snd (open_lights m name device s)))
      (fst (snd (open_lights m name device s))) = Some Set_light_attention"
    unfolding n by (rule open_lights_Some(3) [OF sel])
  show "call_set_light Set_light_attention req io w = Some (set_light_attention req io w)"
    by simp
qed

theorem open_lights_recognized_ids_witness:
  "open_lights 7 ''bogus'' 0 world0 = (- 22, 0, world0)
   \<and> fst (open_lights 7 ''backlight'' 0 world0) = 0
   \<and> handle_set_light (snd (snd (open_lights 7 ''backlight'' 0 world0)))
        (fst (snd (open_lights 7 ''backlight'' 0 world0))) = Some Set_light_backlight
   \<and> fst (open_lights 7 ''notifications'' 0 world0) = 0
   \<and> handle_set_light (snd (snd (open_lights 7 ''notifications'' 0 world0)))
        (fst (snd (open_lights 7 ''notifications'' 0 world0))) = Some Set_light_notifications
   \<and> fst (open_lights 7 ''attention'' 0 world0) = 0
   \<and> handle_set_light (snd (snd (open_lights 7 ''attention'' 0 world0)))
        (fst (snd (open_lights 7 ''attention'' 0 world0))) = Some Set_light_attention"
proof -
  have bogus: "''bogus'' \<noteq> ''backlight'' \<and> ''bogus'' \<noteq> ''notifications''
      \<and> ''bogus'' \<noteq> ''attention''"
    by simp
  have 1: "open_lights 7 ''bogus'' 0 world0 = (- 22, 0, world0)"
    using bogus
      open_lights_recognized_ids [where m = 7 and name = "''bogus''" and device = 0 and s = world0
            and req = red and io = "Write_returns 0" and w = world0]
    by (simp add: EINVAL_def)
  have 2: "fst (open_lights 7 ''backlight'' 0 world0) = 0
      \<and> handle_set_light (snd (snd (open_lights 7 ''backlight'' 0 world0)))
        (fst (snd (open_lights 7 ''backlight'' 0 world0))) = Some Set_light_backlight"
    using open_lights_recognized_ids [where m = 7 and name = "''backlight''" and device = 0 and s = world0
            and req = red and io = "Write_returns 0" and w = world0]
    by simp
  have 3: "fst (open_lights 7 ''notifications'' 0 world0) = 0
      \<and> handle_set_light (snd (snd (open_lights 7 ''notifications'' 0 world0)))
        (fst (snd (open_lights 7 ''notifications'' 0 world0))) = Some Set_light_notifications"
    using open_lights_recognized_ids [where m = 7 and name = "''notifications''" and device = 0 and s = world0
            and req = red and io = "Write_returns 0" and w = world0]
    by simp
  have 4: "fst (open_lights 7 ''attention'' 0 world0) = 0
      \<and> handle_set_light (snd (snd (open_lights 7 ''attention'' 0 world0)))
        (fst (snd (open_lights 7 ''attention'' 0 world0))) = Some Set_light_attention"
    using open_lights_recognized_ids [where m = 7 and name = "''attention''" and device = 0 and s = world0
            and req = red and io = "Write_returns 0" and w = world0]
    by simp
  from 1 2 3 4 show ?thesis by simp
qed

end
